theory Spec2Isabelle
  imports Main "HOL-Library.Sublist" "HOL-Library.AList"
begin

section \<open>JavaScript values\<close>

text \<open>
  A thrown \<^verbatim>\<open>Error\<close> is a value carrying its message; a function that may throw returns
  \<open>js_error + 'a\<close>, with \<open>Inl\<close> for the exception.
\<close>

datatype js_error = Error (err_message: string)

text \<open>
  Nullable strings are \<open>string option\<close> (\<open>None\<close> for \<^verbatim>\<open>undefined\<close> and \<^verbatim>\<open>null\<close>).
  JavaScript's truthiness of such a value: absent and the empty string are falsy.
\<close>

definition truthy :: "string option \<Rightarrow> bool" where
  "truthy v = (case v of None \<Rightarrow> False | Some s \<Rightarrow> s \<noteq> [])"

text \<open>\<^verbatim>\<open>a || b\<close> on nullable strings.\<close>

definition js_or :: "string option \<Rightarrow> string option \<Rightarrow> string option" where
  "js_or a b = (if truthy a then a else b)"

text \<open>\<^verbatim>\<open>s.includes(pat)\<close>: \<open>pat\<close> occurs in \<open>s\<close> as a contiguous substring.\<close>

fun includes_str :: "string \<Rightarrow> string \<Rightarrow> bool" where
  "includes_str [] pat = (pat = [])"
| "includes_str (c # cs) pat = (prefix pat (c # cs) \<or> includes_str cs pat)"

text \<open>Decimal rendering of a number inside a template literal.\<close>

fun digits :: "nat \<Rightarrow> string" where
  "digits n = (if n < 10 then [char_of (48 + n)] else digits (n div 10) @ [char_of (48 + n mod 10)])"

declare digits.simps [simp del]

text \<open>
  \<^verbatim>\<open>c.toUpperCase()\<close> on one character. Exact on ASCII, which covers every provider name
  for which the display name is built (see \<open>credentialTypes\<close> below).
\<close>

definition toUpperCase :: "char \<Rightarrow> char" where
  "toUpperCase c =
     (let n = (of_char c :: nat) in if 97 \<le> n \<and> n \<le> 122 then char_of (n - 32) else c)"

text \<open>\<^verbatim>\<open>s.replace(a, b)\<close> with one-character strings: the first occurrence only.\<close>

fun replace_first :: "char \<Rightarrow> char \<Rightarrow> string \<Rightarrow> string" where
  "replace_first a b [] = []"
| "replace_first a b (c # cs) = (if c = a then b # cs else c # replace_first a b cs)"

section \<open>Data model\<close>

text \<open>A row of \<^verbatim>\<open>user_social_credentials\<close> and a row of the user table, as selected.\<close>

record social_row =
  row_access_token :: "string option"
  row_refresh_token :: "string option"
  row_client_id :: "string option"
  row_client_secret :: "string option"

record user_row =
  row_n8n_url :: "string option"
  row_n8n_user_email :: "string option"
  row_n8n_encryption_key :: "string option"
  row_email :: "string option"
  row_name :: "string option"

text \<open>The merged structure \<^verbatim>\<open>fetchUserCredentials\<close> returns.\<close>

record cred_data =
  cd_user_id :: string
  cd_provider :: string
  cd_access_token :: "string option"
  cd_refresh_token :: "string option"
  cd_client_id :: "string option"
  cd_client_secret :: "string option"
  cd_n8n_url :: "string option"
  cd_n8n_user_email :: "string option"
  cd_n8n_encryption_key :: "string option"

text \<open>
  The result of reading a property of an object literal: an own property, a member
  inherited from \<^verbatim>\<open>Object.prototype\<close>, or \<^verbatim>\<open>undefined\<close>. An inherited
  member is a function or an object; \<^verbatim>\<open>JSON.stringify\<close> writes no type tag for it.
\<close>

datatype js_prop = Own string | Inherited string | Undefined

definition prop_truthy :: "js_prop \<Rightarrow> bool" where
  "prop_truthy p = (case p of Own s \<Rightarrow> s \<noteq> [] | Inherited _ \<Rightarrow> True | Undefined \<Rightarrow> False)"

record oauth_data =
  clientId :: "string option"
  clientSecret :: "string option"
  accessToken :: "string option"
  refreshToken :: "string option"
  tokenType :: string
  grantType :: string

record credential_template =
  tpl_id :: string
  tpl_name :: string
  tpl_type :: js_prop
  tpl_data :: oauth_data
  createdAt :: string
  updatedAt :: string

text \<open>
  The import document. The JSON text \<^verbatim>\<open>JSON.stringify\<close> produces is represented by the
  document it denotes.
\<close>

record import_document =
  doc_version :: string
  doc_credentials :: "credential_template list"
  doc_workflows :: "unit list"

record cli_details =
  det_method :: string
  det_output :: string
  det_strategy :: "string option"

record troubleshooting_info =
  strategies_tried :: "string list"
  common_fixes :: "string list"

text \<open>The object the importer returns (\<^verbatim>\<open>cliResult\<close>).\<close>

record cli_result =
  success :: bool
  credentialId :: "string option"
  cli_message :: string
  details :: "cli_details option"
  troubleshooting :: "troubleshooting_info option"

record additional_data =
  injection_method :: string
  ad_success :: bool
  ad_error :: "string option"
  ad_details :: "cli_details option"
  ad_timestamp :: string
  ad_platform :: string
  ad_version :: "string option"

record update_data =
  injected_to_n8n :: bool
  injected_at :: "string option"
  injection_error :: "string option"
  upd_additional_data :: additional_data
  updated_at :: string
  n8n_credential_id :: "string option"

section \<open>The outside world\<close>

text \<open>
  How a child process ended, as \<^verbatim>\<open>exec\<close> sees it: the exit status its exit handler
  receives (\<open>None\<close> when there is none: the child was ended by a signal, the one sent at
  the timeout included, or an \<^verbatim>\<open>error\<close> event came first because the child could not be
  spawned or killed), everything the child printed on its two streams, as bytes, and the
  message of the error \<^verbatim>\<open>exec\<close> builds when it reports a failure.
\<close>

record proc_outcome =
  exit_code :: "nat option"
  stdout :: string
  stderr :: string
  exec_failure :: string

text \<open>
  No call of the service passes \<^verbatim>\<open>maxBuffer\<close>, so the default of \<^verbatim>\<open>exec\<close> applies: one
  mebibyte on each stream.
\<close>

definition maxBuffer :: nat where
  "maxBuffer = 1024 * 1024"

text \<open>
  \<^verbatim>\<open>exec\<close> reports no error exactly when the child exited with status 0 and neither
  stream grew beyond \<^verbatim>\<open>maxBuffer\<close> bytes. A stream that does records an error (and the
  child is killed), whatever the exit status turns out to be.
\<close>

definition exec_resolves :: "proc_outcome \<Rightarrow> bool" where
  "exec_resolves p =
     (exit_code p = Some 0 \<and> length (stdout p) \<le> maxBuffer \<and> length (stderr p) \<le> maxBuffer)"

text \<open>
  \<^verbatim>\<open>promisify(exec)\<close>: the promise resolves with the two output streams when
  \<^verbatim>\<open>exec\<close> reports no error, and rejects with the error otherwise.
\<close>

definition execAsync :: "proc_outcome \<Rightarrow> js_error + (string \<times> string)" where
  "execAsync p =
     (if exec_resolves p then Inr (stdout p, stderr p) else Inl (Error (exec_failure p)))"

text \<open>
  A database call either rejects (the awaited promise throws) or resolves to the pair
  \<^verbatim>\<open>{ data, error }\<close>.
\<close>

datatype 'r query_outcome = Rejected js_error | Resolved "'r option" "string option"

record exec_options =
  opt_env :: "(string \<times> string option) list option"
  opt_timeout :: nat
  opt_cwd :: "string option"

text \<open>The external actions a request performs, in the order they are started.\<close>

datatype event =
    Exec string exec_options
  | SelectSocial string string
  | SelectUser string
  | WriteFile string import_document
  | Mkdir string
  | ReadFile string
  | Unlink string
  | Update string string update_data

text \<open>
  Everything the service reads from outside itself: the process environment, the clock and
  the random source, and how each external call turns out. Import runs and read-backs are
  given per strategy name, since the same command may end differently on each attempt.
\<close>

record world =
  process_env :: "(string \<times> string) list"
  client_failure :: "string option"
  version_probe :: proc_outcome
  social_query :: "string \<Rightarrow> string \<Rightarrow> social_row query_outcome"
  user_query :: "string \<Rightarrow> user_row query_outcome"
  randomUUID :: string
  date_iso :: string
  date_now :: nat
  write_failure :: "string option"
  mkdir_failure :: "string option"
  import_run :: "string \<Rightarrow> proc_outcome"
  read_json :: "string \<Rightarrow> js_error + import_document"
  unlink_failure :: "string option"
  update_query :: "unit query_outcome"
  simple_run :: proc_outcome

text \<open>\<^verbatim>\<open>CONFIG\<close>, read from the process environment.\<close>

definition SUPABASE_URL :: "world \<Rightarrow> string option" where
  "SUPABASE_URL w = map_of (process_env w) ''SUPABASE_URL''"

definition SUPABASE_SERVICE_KEY :: "world \<Rightarrow> string option" where
  "SUPABASE_SERVICE_KEY w = map_of (process_env w) ''SUPABASE_SERVICE_ROLE_KEY''"

text \<open>
  \<^verbatim>\<open>createClient(url, key)\<close> depends on the configuration only: it throws on every call
  (\<open>client_failure w = Some m\<close>) or on none.
\<close>

definition createClient :: "world \<Rightarrow> js_error + unit" where
  "createClient w = (case client_failure w of Some m \<Rightarrow> Inl (Error m) | None \<Rightarrow> Inr ())"

section \<open>Credential fetcher\<close>

text \<open>
  \<^verbatim>\<open>fetchUserCredentials\<close>. The client is created outside the \<^verbatim>\<open>try\<close> block, so its
  failure is thrown to the caller; everything the two queries do wrong, rejected promises
  included, ends in \<^verbatim>\<open>null\<close> (\<open>Inr None\<close>).
\<close>

definition fetchUserCredentials ::
  "world \<Rightarrow> string \<Rightarrow> string \<Rightarrow> (js_error + cred_data option) \<times> event list" where
  "fetchUserCredentials w userId provider =
     (case createClient w of
        Inl e \<Rightarrow> (Inl e, [])
      | Inr _ \<Rightarrow>
         (case social_query w userId provider of
            Rejected e \<Rightarrow> (Inr None, [SelectSocial userId provider])
          | Resolved socialCred socialError \<Rightarrow>
             (case (socialError, socialCred) of
                (None, Some sc) \<Rightarrow>
                  (case user_query w userId of
                     Rejected e \<Rightarrow> (Inr None, [SelectSocial userId provider, SelectUser userId])
                   | Resolved userInfo userError \<Rightarrow>
                      (case (userError, userInfo) of
                         (None, Some ui) \<Rightarrow>
                           (Inr (Some \<lparr>cd_user_id = userId,
                                       cd_provider = provider,
                                       cd_access_token = row_access_token sc,
                                       cd_refresh_token = js_or (row_refresh_token sc) (Some []),
                                       cd_client_id = row_client_id sc,
                                       cd_client_secret = row_client_secret sc,
                                       cd_n8n_url = row_n8n_url ui,
                                       cd_n8n_user_email = js_or (row_n8n_user_email ui) (row_email ui),
                                       cd_n8n_encryption_key = row_n8n_encryption_key ui\<rparr>),
                            [SelectSocial userId provider, SelectUser userId])
                       | _ \<Rightarrow> (Inr None, [SelectSocial userId provider, SelectUser userId])))
              | _ \<Rightarrow> (Inr None, [SelectSocial userId provider]))))"

section \<open>Credential template builder\<close>

text \<open>
  The names every object literal inherits from \<^verbatim>\<open>Object.prototype\<close> (Node 18, the
  image the Dockerfile builds on). Each of them is a function or an object, hence truthy.
\<close>

definition object_prototype_members :: "string list" where
  "object_prototype_members =
     [''constructor'', ''__defineGetter__'', ''__defineSetter__'', ''hasOwnProperty'',
      ''__lookupGetter__'', ''__lookupSetter__'', ''isPrototypeOf'', ''propertyIsEnumerable'',
      ''toString'', ''valueOf'', ''__proto__'', ''toLocaleString'']"

text \<open>
  \<^verbatim>\<open>credentialTypes[key]\<close>: the literal's three own properties first, then the prototype
  chain.
\<close>

definition credentialTypes :: "string \<Rightarrow> js_prop" where
  "credentialTypes key =
     (if key = ''google'' then Own ''googleOAuth2Api''
      else if key = ''spotify'' then Own ''spotifyOAuth2Api''
      else if key = ''github'' then Own ''githubOAuth2Api''
      else if key \<in> set object_prototype_members then Inherited key
      else Undefined)"

text \<open>\<^verbatim>\<open>p.charAt(0).toUpperCase() + p.slice(1)\<close>.\<close>

definition capitalize :: "string \<Rightarrow> string" where
  "capitalize p = (case p of [] \<Rightarrow> [] | c # cs \<Rightarrow> toUpperCase c # cs)"

text \<open>
  \<^verbatim>\<open>createCredentialTemplate\<close>. The identifier and the clock readings come from the
  world; one clock reading stands for the \<^verbatim>\<open>new Date()\<close> calls of a request.
\<close>

definition createCredentialTemplate :: "world \<Rightarrow> cred_data \<Rightarrow> js_error + credential_template" where
  "createCredentialTemplate w credData =
     (let credentialId = randomUUID w;
          timestamp = replace_first CHR ''T'' CHR '' '' (take 16 (date_iso w));
          credentialType = credentialTypes (cd_provider credData)
      in if \<not> prop_truthy credentialType
         then Inl (Error (''Unsupported provider: '' @ cd_provider credData))
         else Inr \<lparr>tpl_id = credentialId,
                   tpl_name = capitalize (cd_provider credData) @ '' OAuth2 - '' @ timestamp,
                   tpl_type = credentialType,
                   tpl_data = \<lparr>clientId = cd_client_id credData,
                                clientSecret = cd_client_secret credData,
                                accessToken = cd_access_token credData,
                                refreshToken = cd_refresh_token credData,
                                tokenType = ''Bearer'',
                                grantType = ''authorizationCode''\<rparr>,
                   createdAt = date_iso w,
                   updatedAt = date_iso w\<rparr>)"

definition generateCredentialJSON :: "credential_template list \<Rightarrow> import_document" where
  "generateCredentialJSON credentials =
     \<lparr>doc_version = ''1.0.0'', doc_credentials = credentials, doc_workflows = []\<rparr>"

section \<open>Subprocess importer\<close>

text \<open>
  The \<^verbatim>\<open>switch\<close> of \<^verbatim>\<open>tryImportCommand\<close>: the command line and the environment of a
  strategy, or the error of the \<^verbatim>\<open>default\<close> branch.
\<close>

definition strategy_command ::
  "world \<Rightarrow> string \<Rightarrow> cred_data \<Rightarrow> string \<Rightarrow> js_error + (string \<times> (string \<times> string option) list)" where
  "strategy_command w tempFilePath credData strategy =
     (let inherited = map (\<lambda>(k, v). (k, Some v)) (process_env w);
          key = cd_n8n_encryption_key credData
      in if strategy = ''basic'' then
           Inr (''n8n import:credentials --input='' @ tempFilePath,
                AList.update ''N8N_ENCRYPTION_KEY'' key inherited)
         else if strategy = ''userFolder'' then
           Inr (''n8n import:credentials --input='' @ tempFilePath @ '' --userFolder=/tmp/.n8n'',
                AList.update ''N8N_USER_FOLDER'' (Some ''/tmp/.n8n'')
                  (AList.update ''N8N_ENCRYPTION_KEY'' key inherited))
         else if strategy = ''minimal'' then
           Inr (''n8n import:credentials --input='' @ tempFilePath,
                [(''NODE_ENV'', Some ''production''),
                 (''N8N_ENCRYPTION_KEY'', key),
                 (''N8N_LOG_LEVEL'', Some ''error''),
                 (''N8N_USER_MANAGEMENT_DISABLED'', Some ''true'')])
         else Inl (Error (''Unknown strategy: '' @ strategy)))"

text \<open>The three success indicators looked for in the importer's standard output.\<close>

definition has_success_indicator :: "string \<Rightarrow> bool" where
  "has_success_indicator out =
     (includes_str out ''Successfully imported''
      \<or> includes_str out ''imported''
      \<or> includes_str out ''credential'')"

text \<open>
  \<^verbatim>\<open>tryImportCommand\<close>: one attempt. It returns a success object or throws; reading the
  scratch file back and taking \<^verbatim>\<open>credentials[0].id\<close> can throw as well.
\<close>

definition tryImportCommand ::
  "world \<Rightarrow> string \<Rightarrow> cred_data \<Rightarrow> string \<Rightarrow> (js_error + cli_result) \<times> event list" where
  "tryImportCommand w tempFilePath credData strategy =
     (case strategy_command w tempFilePath credData strategy of
        Inl e \<Rightarrow> (Inl e, [])
      | Inr (command, env) \<Rightarrow>
         (let run = Exec command \<lparr>opt_env = Some env, opt_timeout = 60000, opt_cwd = Some ''/tmp''\<rparr>
          in case execAsync (import_run w strategy) of
               Inl e \<Rightarrow> (Inl e, [run])
             | Inr (out, err) \<Rightarrow>
                if has_success_indicator out then
                  (case read_json w strategy of
                     Inl e \<Rightarrow> (Inl e, [run, ReadFile tempFilePath])
                   | Inr doc \<Rightarrow>
                      (case doc_credentials doc of
                         [] \<Rightarrow>
                           (Inl (Error (''Cannot read properties of undefined (reading ''
                                         @ [CHR 0x27] @ ''id'' @ [CHR 0x27] @ '')'')),
                            [run, ReadFile tempFilePath])
                       | c # _ \<Rightarrow>
                           (Inr \<lparr>success = True,
                                 credentialId = Some (tpl_id c),
                                 cli_message =
                                   ''Credentials imported successfully using '' @ strategy @ '' strategy'',
                                 details = Some \<lparr>det_method = ''railway_cli_'' @ strategy,
                                                 det_output = out,
                                                 det_strategy = Some strategy\<rparr>,
                                 troubleshooting = None\<rparr>,
                            [run, ReadFile tempFilePath])))
                else
                  (Inl (Error (''Import command completed but no success indicators found. Output: ''
                                @ out)),
                   [run])))"

text \<open>
  What a strategy block of \<^verbatim>\<open>executeN8NCLIEnhanced\<close> does with an attempt: a returned
  object with \<^verbatim>\<open>success\<close> set ends the importer, anything else (an exception included)
  falls through to the next block.
\<close>

definition returned_success :: "js_error + cli_result \<Rightarrow> cli_result option" where
  "returned_success r =
     (case r of Inl e \<Rightarrow> None | Inr result \<Rightarrow> if success result then Some result else None)"

text \<open>The second strategy block: the user folder is created first, inside the same \<^verbatim>\<open>try\<close>.\<close>

definition userFolder_attempt ::
  "world \<Rightarrow> string \<Rightarrow> cred_data \<Rightarrow> (js_error + cli_result) \<times> event list" where
  "userFolder_attempt w tempFilePath credData =
     (case mkdir_failure w of
        Some m \<Rightarrow> (Inl (Error m), [Mkdir ''/tmp/.n8n''])
      | None \<Rightarrow>
         (case tryImportCommand w tempFilePath credData ''userFolder'' of
            (r, t) \<Rightarrow> (r, Mkdir ''/tmp/.n8n'' # t)))"

text \<open>The object the outer \<^verbatim>\<open>catch\<close> of \<^verbatim>\<open>executeN8NCLIEnhanced\<close> returns.\<close>

definition enhanced_failure :: "js_error \<Rightarrow> cli_result" where
  "enhanced_failure e =
     \<lparr>success = False,
      credentialId = None,
      cli_message = (if err_message e = [] then ''Enhanced CLI execution failed'' else err_message e),
      details = None,
      troubleshooting = Some
        \<lparr>strategies_tried = [''basic'', ''userFolder'', ''minimal''],
         common_fixes = [''Rebuild Docker image with proper n8n installation'',
                         ''Check n8n global installation'',
                         ''Verify file permissions in container'']\<rparr>\<rparr>"

definition tempFilePath_of :: "world \<Rightarrow> string" where
  "tempFilePath_of w = ''/tmp'' @ ''/'' @ ''credentials-'' @ digits (date_now w) @ ''.json''"

text \<open>
  \<^verbatim>\<open>executeN8NCLIEnhanced\<close>: write the scratch file, try the three strategies in order,
  delete the file (a failing deletion is caught and dropped) and return.
\<close>

definition executeN8NCLIEnhanced ::
  "world \<Rightarrow> cred_data \<Rightarrow> import_document \<Rightarrow> cli_result \<times> event list" where
  "executeN8NCLIEnhanced w credData jsonContent =
     (let tempFilePath = tempFilePath_of w;
          written = WriteFile tempFilePath jsonContent;
          cleanup = Unlink tempFilePath
      in case write_failure w of
           Some m \<Rightarrow> (enhanced_failure (Error m), [written, cleanup])
         | None \<Rightarrow>
            (case tryImportCommand w tempFilePath credData ''basic'' of (r1, t1) \<Rightarrow>
               (case returned_success r1 of
                  Some result \<Rightarrow> (result, written # t1 @ [cleanup])
                | None \<Rightarrow>
                   (case userFolder_attempt w tempFilePath credData of (r2, t2) \<Rightarrow>
                      (case returned_success r2 of
                         Some result \<Rightarrow> (result, written # t1 @ t2 @ [cleanup])
                       | None \<Rightarrow>
                          (case tryImportCommand w tempFilePath credData ''minimal'' of (r3, t3) \<Rightarrow>
                             (case returned_success r3 of
                                Some result \<Rightarrow> (result, written # t1 @ t2 @ t3 @ [cleanup])
                              | None \<Rightarrow>
                                 (enhanced_failure (Error ''All import strategies failed''),
                                  written # t1 @ t2 @ t3 @ [cleanup]))))))))"

section \<open>Status reporter\<close>

text \<open>
  \<^verbatim>\<open>updateCredentialStatus\<close>. The caller passes the importer's message as \<^verbatim>\<open>error\<close>.
  One update is sent; an error in its answer (or a rejected promise) is thrown on.
\<close>

definition updateCredentialStatus ::
  "world \<Rightarrow> string \<Rightarrow> string \<Rightarrow> bool \<Rightarrow> string option \<Rightarrow> string \<Rightarrow> cli_details option
     \<Rightarrow> (js_error + unit) \<times> event list" where
  "updateCredentialStatus w userId provider succ credId error dets =
     (case createClient w of
        Inl e \<Rightarrow> (Inl e, [])
      | Inr _ \<Rightarrow>
         (let updateData =
                \<lparr>injected_to_n8n = succ,
                 injected_at = (if succ then Some (date_iso w) else None),
                 injection_error = js_or (Some error) None,
                 upd_additional_data =
                   \<lparr>injection_method = ''railway_cli_enhanced'',
                    ad_success = succ,
                    ad_error = js_or (Some error) None,
                    ad_details = dets,
                    ad_timestamp = date_iso w,
                    ad_platform = ''railway'',
                    ad_version = Some ''2.0''\<rparr>,
                 updated_at = date_iso w,
                 n8n_credential_id = (if truthy credId then credId else None)\<rparr>;
              sent = Update userId provider updateData
          in case update_query w of
               Rejected e \<Rightarrow> (Inl e, [sent])
             | Resolved d updateError \<Rightarrow>
                (case updateError of
                   Some m \<Rightarrow> (Inl (Error (''Database update failed: '' @ m)), [sent])
                 | None \<Rightarrow> (Inr (), [sent]))))"

section \<open>HTTP front end\<close>

text \<open>
  The request body as the JSON middleware parsed it; \<open>None\<close> is a field the body does
  not have. The interface declares \<open>user_id\<close> and \<open>provider\<close> as strings and \<open>attempt\<close> as
  a number.
\<close>

record request_body =
  body_user_id :: "string option"
  body_provider :: "string option"
  body_attempt :: "int option"

record response_body =
  rb_success :: bool
  rb_message :: string
  rb_error_type :: "string option"
  rb_credential_id :: "string option"
  rb_details :: "cli_details option"
  rb_attempt :: "int option"
  rb_troubleshooting :: "troubleshooting_info option"

record response =
  status :: nat
  json :: response_body

definition plain_failure :: "nat \<Rightarrow> string \<Rightarrow> string option \<Rightarrow> response" where
  "plain_failure code msg etype =
     \<lparr>status = code,
      json = \<lparr>rb_success = False, rb_message = msg, rb_error_type = etype,
              rb_credential_id = None, rb_details = None, rb_attempt = None,
              rb_troubleshooting = None\<rparr>\<rparr>"

text \<open>The handler's outer \<^verbatim>\<open>catch\<close>.\<close>

definition service_error :: "js_error \<Rightarrow> response" where
  "service_error e =
     plain_failure 500
       (if err_message e = [] then ''Internal server error'' else err_message e)
       (Some ''railway_service_error'')"

definition the_string :: "string option \<Rightarrow> string" where
  "the_string v = (case v of None \<Rightarrow> [] | Some s \<Rightarrow> s)"

text \<open>
  The handler of \<^verbatim>\<open>POST /inject-credential\<close> from the lookup on: fetch, build the
  template, import, report the status, answer.
\<close>

definition inject_from_lookup :: "world \<Rightarrow> string \<Rightarrow> string \<Rightarrow> int \<Rightarrow> response \<times> event list" where
  "inject_from_lookup w uid prov att =
     (case fetchUserCredentials w uid prov of
        (Inl e, t1) \<Rightarrow> (service_error e, t1)
      | (Inr None, t1) \<Rightarrow>
          (plain_failure 404 ''User credentials or n8n configuration not found'' None, t1)
      | (Inr (Some credData), t1) \<Rightarrow>
          (case createCredentialTemplate w credData of
             Inl e \<Rightarrow> (service_error e, t1)
           | Inr credentialTemplate \<Rightarrow>
              (let jsonContent = generateCredentialJSON [credentialTemplate]
               in case executeN8NCLIEnhanced w credData jsonContent of (cliResult, t2) \<Rightarrow>
                    (case updateCredentialStatus w uid prov (success cliResult)
                            (credentialId cliResult) (cli_message cliResult) (details cliResult) of
                       (Inl e, t3) \<Rightarrow> (service_error e, t1 @ t2 @ t3)
                     | (Inr u, t3) \<Rightarrow>
                         (if success cliResult then
                            \<lparr>status = 200,
                             json = \<lparr>rb_success = True,
                                     rb_message = ''Credentials injected successfully via Railway n8n CLI'',
                                     rb_error_type = None,
                                     rb_credential_id = credentialId cliResult,
                                     rb_details = details cliResult,
                                     rb_attempt = None,
                                     rb_troubleshooting = None\<rparr>\<rparr>
                          else
                            \<lparr>status = 500,
                             json = \<lparr>rb_success = False,
                                     rb_message = cli_message cliResult,
                                     rb_error_type = None,
                                     rb_credential_id = None,
                                     rb_details = None,
                                     rb_attempt = Some att,
                                     rb_troubleshooting = troubleshooting cliResult\<rparr>\<rparr>,
                          t1 @ t2 @ t3)))))"

definition version_check :: event where
  "version_check = Exec ''n8n --version'' \<lparr>opt_env = None, opt_timeout = 5000, opt_cwd = None\<rparr>"

text \<open>
  The handler of \<^verbatim>\<open>POST /inject-credential\<close>: the two presence checks, the configuration
  check and the CLI probe, then the steps above. \<^verbatim>\<open>attempt\<close> defaults to 1.
\<close>

definition inject_credential :: "world \<Rightarrow> request_body \<Rightarrow> response \<times> event list" where
  "inject_credential w body =
     (if \<not> truthy (body_user_id body) \<or> \<not> truthy (body_provider body) then
        (plain_failure 400 ''Missing user_id or provider'' None, [])
      else if \<not> truthy (SUPABASE_URL w) \<or> \<not> truthy (SUPABASE_SERVICE_KEY w) then
        (plain_failure 500 ''Missing Supabase configuration'' None, [])
      else
        (case execAsync (version_probe w) of
           Inl cliError \<Rightarrow>
             (plain_failure 500 ''N8N CLI is not available in this environment''
                (Some ''cli_unavailable''),
              [version_check])
         | Inr v \<Rightarrow>
             (case inject_from_lookup w (the_string (body_user_id body)) (the_string (body_provider body))
                     (case body_attempt body of None \<Rightarrow> 1 | Some a \<Rightarrow> a) of
                (res, t) \<Rightarrow> (res, version_check # t))))"

section \<open>The simplified variant of the service\<close>

text \<open>
  The second source file holds an earlier form of the same service: no CLI probe, one
  import command, success decided by the exit status alone. Its fetcher, template builder
  and document generator are the ones above.
\<close>

definition simple_failure :: "js_error \<Rightarrow> cli_result" where
  "simple_failure e =
     \<lparr>success = False,
      credentialId = None,
      cli_message = (if err_message e = [] then ''Railway CLI execution failed'' else err_message e),
      details = None,
      troubleshooting = None\<rparr>"

definition executeN8NCLI :: "world \<Rightarrow> cred_data \<Rightarrow> import_document \<Rightarrow> cli_result \<times> event list" where
  "executeN8NCLI w credData jsonContent =
     (let tempFilePath = tempFilePath_of w;
          written = WriteFile tempFilePath jsonContent;
          cleanup = Unlink tempFilePath;
          env = AList.update ''N8N_LOG_LEVEL'' (Some ''warn'')
                  (AList.update ''N8N_USER_MANAGEMENT_DISABLED'' (Some ''false'')
                     (AList.update ''N8N_ENCRYPTION_KEY'' (cd_n8n_encryption_key credData)
                        (map (\<lambda>(k, v). (k, Some v)) (process_env w))));
          run = Exec (''n8n import:credentials --input='' @ tempFilePath @ '' --separate'')
                  \<lparr>opt_env = Some env, opt_timeout = 30000, opt_cwd = None\<rparr>
      in case write_failure w of
           Some m \<Rightarrow> (simple_failure (Error m), [written, cleanup])
         | None \<Rightarrow>
            (case execAsync (simple_run w) of
               Inl e \<Rightarrow> (simple_failure e, [written, run, cleanup])
             | Inr (out, err) \<Rightarrow>
                (case doc_credentials jsonContent of
                   [] \<Rightarrow>
                     (simple_failure
                        (Error (''Cannot read properties of undefined (reading ''
                                 @ [CHR 0x27] @ ''id'' @ [CHR 0x27] @ '')'')),
                      [written, run, cleanup, cleanup])
                 | c # _ \<Rightarrow>
                     (\<lparr>success = True,
                       credentialId = Some (tpl_id c),
                       cli_message = ''Credentials imported successfully via Railway'',
                       details = Some \<lparr>det_method = ''railway_cli'', det_output = out,
                                       det_strategy = None\<rparr>,
                       troubleshooting = None\<rparr>,
                      [written, run, cleanup]))))"

definition updateCredentialStatus_simple ::
  "world \<Rightarrow> string \<Rightarrow> string \<Rightarrow> bool \<Rightarrow> string option \<Rightarrow> string \<Rightarrow> cli_details option
     \<Rightarrow> (js_error + unit) \<times> event list" where
  "updateCredentialStatus_simple w userId provider succ credId error dets =
     (case createClient w of
        Inl e \<Rightarrow> (Inl e, [])
      | Inr _ \<Rightarrow>
         (let updateData =
                \<lparr>injected_to_n8n = succ,
                 injected_at = (if succ then Some (date_iso w) else None),
                 injection_error = js_or (Some error) None,
                 upd_additional_data =
                   \<lparr>injection_method = ''railway_cli'',
                    ad_success = succ,
                    ad_error = js_or (Some error) None,
                    ad_details = dets,
                    ad_timestamp = date_iso w,
                    ad_platform = ''railway'',
                    ad_version = None\<rparr>,
                 updated_at = date_iso w,
                 n8n_credential_id = (if truthy credId then credId else None)\<rparr>;
              sent = Update userId provider updateData
          in case update_query w of
               Rejected e \<Rightarrow> (Inl e, [sent])
             | Resolved d updateError \<Rightarrow>
                (case updateError of
                   Some m \<Rightarrow> (Inl (Error (''Database update failed: '' @ m)), [sent])
                 | None \<Rightarrow> (Inr (), [sent]))))"

definition inject_credential_simple :: "world \<Rightarrow> request_body \<Rightarrow> response \<times> event list" where
  "inject_credential_simple w body =
     (if \<not> truthy (body_user_id body) \<or> \<not> truthy (body_provider body) then
        (plain_failure 400 ''Missing user_id or provider'' None, [])
      else if \<not> truthy (SUPABASE_URL w) \<or> \<not> truthy (SUPABASE_SERVICE_KEY w) then
        (plain_failure 500 ''Missing Supabase configuration'' None, [])
      else
        (let uid = the_string (body_user_id body); prov = the_string (body_provider body)
         in case fetchUserCredentials w uid prov of
              (Inl e, t1) \<Rightarrow> (service_error e, t1)
            | (Inr None, t1) \<Rightarrow>
                (plain_failure 404 ''User credentials or n8n configuration not found'' None, t1)
            | (Inr (Some credData), t1) \<Rightarrow>
                (case createCredentialTemplate w credData of
                   Inl e \<Rightarrow> (service_error e, t1)
                 | Inr credentialTemplate \<Rightarrow>
                    (let jsonContent = generateCredentialJSON [credentialTemplate]
                     in case executeN8NCLI w credData jsonContent of (cliResult, t2) \<Rightarrow>
                          (case updateCredentialStatus_simple w uid prov (success cliResult)
                                  (credentialId cliResult) (cli_message cliResult)
                                  (details cliResult) of
                             (Inl e, t3) \<Rightarrow> (service_error e, t1 @ t2 @ t3)
                           | (Inr u, t3) \<Rightarrow>
                               (if success cliResult then
                                  \<lparr>status = 200,
                                   json = \<lparr>rb_success = True,
                                           rb_message =
                                             ''Credentials injected successfully via Railway n8n CLI'',
                                           rb_error_type = None,
                                           rb_credential_id = credentialId cliResult,
                                           rb_details = details cliResult,
                                           rb_attempt = None,
                                           rb_troubleshooting = None\<rparr>\<rparr>
                                else
                                  \<lparr>status = 500,
                                   json = \<lparr>rb_success = False,
                                           rb_message = cli_message cliResult,
                                           rb_error_type = None,
                                           rb_credential_id = None,
                                           rb_details = None,
                                           rb_attempt =
                                             Some (case body_attempt body of None \<Rightarrow> 1 | Some a \<Rightarrow> a),
                                           rb_troubleshooting = None\<rparr>\<rparr>,
                                t1 @ t2 @ t3))))))"

section \<open>Concrete worlds\<close>

text \<open>
  A request for user \<open>u1\<close> and provider \<open>google\<close> in a world where every step works: both
  rows exist, the CLI answers, the first import run prints its success line and the
  scratch file reads back as it was written.
\<close>

definition sample_social :: social_row where
  "sample_social =
     \<lparr>row_access_token = Some ''ya29.token'', row_refresh_token = None,
      row_client_id = Some ''client-1'', row_client_secret = Some ''secret-1''\<rparr>"

definition sample_user :: user_row where
  "sample_user =
     \<lparr>row_n8n_url = Some ''https://n8n.example'', row_n8n_user_email = None,
      row_n8n_encryption_key = Some ''enc-key'', row_email = Some ''u1@example.org'',
      row_name = Some ''U One''\<rparr>"

definition sample_cred :: cred_data where
  "sample_cred =
     \<lparr>cd_user_id = ''u1'', cd_provider = ''google'',
      cd_access_token = Some ''ya29.token'', cd_refresh_token = Some [],
      cd_client_id = Some ''client-1'', cd_client_secret = Some ''secret-1'',
      cd_n8n_url = Some ''https://n8n.example'', cd_n8n_user_email = Some ''u1@example.org'',
      cd_n8n_encryption_key = Some ''enc-key''\<rparr>"

definition sample_template :: credential_template where
  "sample_template =
     \<lparr>tpl_id = ''0b5c2a4e-7d1f-4c3a-9e58-6f2d1a0c9b77'',
      tpl_name = ''Google OAuth2 - 2024-01-01 12:34'',
      tpl_type = Own ''googleOAuth2Api'',
      tpl_data = \<lparr>clientId = Some ''client-1'', clientSecret = Some ''secret-1'',
                   accessToken = Some ''ya29.token'', refreshToken = Some [],
                   tokenType = ''Bearer'', grantType = ''authorizationCode''\<rparr>,
      createdAt = ''2024-01-01T12:34:56.789Z'',
      updatedAt = ''2024-01-01T12:34:56.789Z''\<rparr>"

definition sample_body :: request_body where
  "sample_body = \<lparr>body_user_id = Some ''u1'', body_provider = Some ''google'', body_attempt = None\<rparr>"

definition sample_world :: world where
  "sample_world =
     \<lparr>process_env = [(''PORT'', ''3000''),
                     (''SUPABASE_URL'', ''https://db.example''),
                     (''SUPABASE_SERVICE_ROLE_KEY'', ''service-key'')],
      client_failure = None,
      version_probe = \<lparr>exit_code = Some 0, stdout = ''1.64.0'', stderr = [], exec_failure = []\<rparr>,
      social_query = (\<lambda>u p. if u = ''u1'' \<and> p = ''google''
                               then Resolved (Some sample_social) None
                               else Resolved None (Some ''no rows returned'')),
      user_query = (\<lambda>u. if u = ''u1'' then Resolved (Some sample_user) None
                           else Resolved None (Some ''no rows returned'')),
      randomUUID = ''0b5c2a4e-7d1f-4c3a-9e58-6f2d1a0c9b77'',
      date_iso = ''2024-01-01T12:34:56.789Z'',
      date_now = 1704112496789,
      write_failure = None,
      mkdir_failure = None,
      import_run = (\<lambda>s. \<lparr>exit_code = Some 0, stdout = ''Successfully imported 1 credentials'',
                            stderr = [], exec_failure = []\<rparr>),
      read_json = (\<lambda>s. Inr (generateCredentialJSON [sample_template])),
      unlink_failure = None,
      update_query = Resolved None None,
      simple_run = \<lparr>exit_code = Some 0, stdout = ''Successfully imported 1 credentials'',
                     stderr = [], exec_failure = []\<rparr>\<rparr>"

text \<open>The import runs print the success line and then exit with status 1.\<close>

definition crashing_world :: world where
  "crashing_world =
     sample_world\<lparr>import_run := (\<lambda>s. \<lparr>exit_code = Some 1,
                                          stdout = ''Successfully imported 1 credentials'',
                                          stderr = ''Error: database is locked'',
                                          exec_failure = ''Command failed: n8n import:credentials''\<rparr>)\<rparr>"

text \<open>The import runs exit with status 0 and print nothing the importer looks for.\<close>

definition silent_world :: world where
  "silent_world =
     sample_world\<lparr>import_run := (\<lambda>s. \<lparr>exit_code = Some 0, stdout = ''Done.'', stderr = [],
                                          exec_failure = []\<rparr>)\<rparr>"

text \<open>
  The import runs exit with status 0 after printing more than \<^verbatim>\<open>exec\<close> buffers: a
  mebibyte of progress dots, then the success line.
\<close>

definition flooding_world :: world where
  "flooding_world =
     sample_world\<lparr>import_run := (\<lambda>s. \<lparr>exit_code = Some 0,
                                          stdout = replicate 1048576 CHR ''.''
                                                     @ ''Successfully imported 1 credentials'',
                                          stderr = [],
                                          exec_failure = ''stdout maxBuffer length exceeded''\<rparr>)\<rparr>"

text \<open>The import works and the status update is refused by the database.\<close>

definition refusing_world :: world where
  "refusing_world = sample_world\<lparr>update_query := Resolved None (Some ''permission denied'')\<rparr>"

text \<open>No credential row matches.\<close>

definition empty_world :: world where
  "empty_world = sample_world\<lparr>social_query := (\<lambda>u p. Resolved None (Some ''no rows returned''))\<rparr>"

text \<open>
  A credential row is stored under the provider name \<open>constructor\<close>; the CLI rejects the
  document written for it.
\<close>

definition constructor_body :: request_body where
  "constructor_body =
     \<lparr>body_user_id = Some ''u1'', body_provider = Some ''constructor'', body_attempt = None\<rparr>"

definition constructor_world :: world where
  "constructor_world =
     sample_world\<lparr>social_query := (\<lambda>u p. if u = ''u1'' \<and> p = ''constructor''
                                              then Resolved (Some sample_social) None
                                              else Resolved None (Some ''no rows returned'')),
                  import_run := (\<lambda>s. \<lparr>exit_code = Some 1, stdout = [],
                                          stderr = ''Credential type is missing'',
                                          exec_failure = ''Command failed: n8n import:credentials''\<rparr>)\<rparr>"

section \<open>Reading traces and outcomes\<close>

text \<open>Kinds of events, to count them in a trace.\<close>

fun is_update :: "event \<Rightarrow> bool" where
  "is_update (Update u p d) = True"
| "is_update e = False"

fun is_unlink :: "event \<Rightarrow> bool" where
  "is_unlink (Unlink p) = True"
| "is_unlink e = False"

fun event_name :: "event \<Rightarrow> string" where
  "event_name (Exec c opts) = ''exec''"
| "event_name (SelectSocial u p) = ''select''"
| "event_name (SelectUser u) = ''select''"
| "event_name (WriteFile p d) = ''writeFile''"
| "event_name (Mkdir p) = ''mkdir''"
| "event_name (ReadFile p) = ''readFile''"
| "event_name (Unlink p) = ''unlink''"
| "event_name (Update u p d) = ''update''"

text \<open>
  A lookup that gives the fetcher nothing to work with: the call rejected, or it resolved
  with no row or with an error.
\<close>

definition lookup_failed :: "'r query_outcome \<Rightarrow> bool" where
  "lookup_failed q = (case q of Rejected e \<Rightarrow> True | Resolved d err \<Rightarrow> d = None \<or> err \<noteq> None)"

text \<open>The exception a status update ends in, if it fails.\<close>

definition update_failure :: "unit query_outcome \<Rightarrow> js_error option" where
  "update_failure q =
     (case q of
        Rejected e \<Rightarrow> Some e
      | Resolved d err \<Rightarrow>
         (case err of Some m \<Rightarrow> Some (Error (''Database update failed: '' @ m)) | None \<Rightarrow> None))"

section \<open>Traces of the components\<close>

text \<open>The substring test is the library's contiguous-sublist relation.\<close>

lemma includes_str_sublist: "includes_str s pat = sublist pat s"
  by (induction s) (simp_all add: sublist_Cons_right)

text \<open>An import attempt neither deletes a file nor writes a status.\<close>

lemma tryImportCommand_no_update:
  "filter is_update (snd (tryImportCommand w p cd s)) = []"
  by (simp add: tryImportCommand_def Let_def split: sum.split prod.split list.split)

lemma tryImportCommand_no_unlink:
  "filter is_unlink (snd (tryImportCommand w p cd s)) = []"
  by (simp add: tryImportCommand_def Let_def split: sum.split prod.split list.split)

lemma userFolder_attempt_no_update:
  "filter is_update (snd (userFolder_attempt w p cd)) = []"
  using tryImportCommand_no_update [of w p cd "''userFolder''"]
  by (simp add: userFolder_attempt_def case_prod_beta split: option.split)

lemma userFolder_attempt_no_unlink:
  "filter is_unlink (snd (userFolder_attempt w p cd)) = []"
  using tryImportCommand_no_unlink [of w p cd "''userFolder''"]
  by (simp add: userFolder_attempt_def case_prod_beta split: option.split)

lemma fetchUserCredentials_no_update:
  "filter is_update (snd (fetchUserCredentials w u p)) = []"
  by (simp add: fetchUserCredentials_def split: sum.split query_outcome.split option.split)

text \<open>
  Whatever happens in between, the importer's trace starts with the write of the scratch
  file and ends with the one attempt to delete it.
\<close>

lemma executeN8NCLIEnhanced_trace:
  "\<exists>mid. snd (executeN8NCLIEnhanced w cd doc)
            = WriteFile (tempFilePath_of w) doc # mid @ [Unlink (tempFilePath_of w)]
         \<and> filter is_unlink mid = [] \<and> filter is_update mid = []"
  using tryImportCommand_no_update [of w "tempFilePath_of w" cd "''basic''"]
        tryImportCommand_no_update [of w "tempFilePath_of w" cd "''minimal''"]
        tryImportCommand_no_unlink [of w "tempFilePath_of w" cd "''basic''"]
        tryImportCommand_no_unlink [of w "tempFilePath_of w" cd "''minimal''"]
        userFolder_attempt_no_update [of w "tempFilePath_of w" cd]
        userFolder_attempt_no_unlink [of w "tempFilePath_of w" cd]
  by (simp add: executeN8NCLIEnhanced_def Let_def case_prod_beta split: option.split)

lemma strategy_command_known:
  assumes "strategy \<in> {''basic'', ''userFolder'', ''minimal''}"
  shows "\<exists>command env. strategy_command w p cd strategy = Inr (command, env)"
  using assms by (auto simp: strategy_command_def Let_def)

section \<open>The success criterion of an import attempt\<close>

text \<open>
  C1 (as amended). For each of the three strategies, an attempt is reported as success
  exactly when the promisified \<^verbatim>\<open>exec\<close> resolves (the subprocess exited with status 0
  and neither output stream went beyond the one-mebibyte buffer), its standard output
  contains one of the substrings "Successfully imported", "imported", "credential", and
  the scratch file reads back as a document with at least one credential. Output without
  any of the substrings is a failure even with exit status 0; and when \<^verbatim>\<open>exec\<close>
  rejects (an exit status other than 0, no exit status, or an overrun buffer) the attempt
  is a failure whatever was printed, because the output is never looked at.
\<close>

theorem import_attempt_outcome:
  assumes "strategy \<in> {''basic'', ''userFolder'', ''minimal''}"
  shows "(returned_success (fst (tryImportCommand w tempFilePath credData strategy)) \<noteq> None
            \<longleftrightarrow> exit_code (import_run w strategy) = Some 0
                \<and> length (stdout (import_run w strategy)) \<le> maxBuffer
                \<and> length (stderr (import_run w strategy)) \<le> maxBuffer
                \<and> has_success_indicator (stdout (import_run w strategy))
                \<and> (\<exists>doc. read_json w strategy = Inr doc \<and> doc_credentials doc \<noteq> []))
       \<and> (\<not> has_success_indicator (stdout (import_run w strategy))
          \<longrightarrow> returned_success (fst (tryImportCommand w tempFilePath credData strategy)) = None)
       \<and> (exec_resolves (import_run w strategy)
            \<and> \<not> has_success_indicator (stdout (import_run w strategy))
          \<longrightarrow> fst (tryImportCommand w tempFilePath credData strategy)
                = Inl (Error (''Import command completed but no success indicators found. Output: ''
                               @ stdout (import_run w strategy))))
       \<and> (\<not> exec_resolves (import_run w strategy)
          \<longrightarrow> fst (tryImportCommand w tempFilePath credData strategy)
                = Inl (Error (exec_failure (import_run w strategy))))"
proof -
  obtain command env where
    c: "strategy_command w tempFilePath credData strategy = Inr (command, env)"
    using strategy_command_known [OF assms] by blast
  show ?thesis
  proof (cases "exec_resolves (import_run w strategy)")
    case False
    then have "fst (tryImportCommand w tempFilePath credData strategy)
                 = Inl (Error (exec_failure (import_run w strategy)))"
      by (simp add: tryImportCommand_def c execAsync_def)
    with False show ?thesis
      by (auto simp: returned_success_def exec_resolves_def)
  next
    case True
    then have e: "execAsync (import_run w strategy)
                   = Inr (stdout (import_run w strategy), stderr (import_run w strategy))"
      by (simp add: execAsync_def)
    from True have b: "exit_code (import_run w strategy) = Some 0"
      "length (stdout (import_run w strategy)) \<le> maxBuffer"
      "length (stderr (import_run w strategy)) \<le> maxBuffer"
      by (simp_all add: exec_resolves_def)
    show ?thesis
      using True b
      by (auto simp: tryImportCommand_def c e returned_success_def Let_def
               split: sum.splits list.splits)
  qed
qed

theorem import_attempt_outcome_witness:
  "returned_success
     (fst (tryImportCommand sample_world (tempFilePath_of sample_world) sample_cred ''basic''))
     \<noteq> None
   \<and> fst (tryImportCommand silent_world (tempFilePath_of silent_world) sample_cred ''minimal'')
       = Inl (Error ''Import command completed but no success indicators found. Output: Done.'')
   \<and> fst (tryImportCommand flooding_world (tempFilePath_of flooding_world) sample_cred ''basic'')
       = Inl (Error ''stdout maxBuffer length exceeded'')"
proof -
  have f: "\<not> exec_resolves (import_run flooding_world ''basic'')"
    by (simp add: exec_resolves_def maxBuffer_def flooding_world_def)
  have m: "exec_failure (import_run flooding_world ''basic'') = ''stdout maxBuffer length exceeded''"
    by (simp add: flooding_world_def)
  show ?thesis
    using import_attempt_outcome [of "''basic''" sample_world "tempFilePath_of sample_world" sample_cred]
          import_attempt_outcome [of "''minimal''" silent_world "tempFilePath_of silent_world" sample_cred]
          import_attempt_outcome [of "''basic''" flooding_world "tempFilePath_of flooding_world" sample_cred]
          f m
    by (simp add: sample_world_def silent_world_def has_success_indicator_def
          generateCredentialJSON_def exec_resolves_def maxBuffer_def)
qed

text \<open>
  The claim as written fails where the subprocess prints its success line and then exits
  with status 1: the text is there, and the attempt is a failure.
\<close>

theorem success_text_nonzero_exit_counterexample:
  "has_success_indicator (stdout (import_run crashing_world ''basic''))
   \<and> exit_code (import_run crashing_world ''basic'') = Some 1
   \<and> fst (tryImportCommand crashing_world (tempFilePath_of crashing_world) sample_cred ''basic'')
       = Inl (Error ''Command failed: n8n import:credentials'')
   \<and> returned_success
         (fst (tryImportCommand crashing_world (tempFilePath_of crashing_world) sample_cred ''basic''))
       = None"
  by (simp add: crashing_world_def sample_world_def has_success_indicator_def
        tryImportCommand_def strategy_command_def execAsync_def exec_resolves_def maxBuffer_def
        returned_success_def Let_def)

section \<open>The handler as a pipeline\<close>

text \<open>
  Once the presence checks, the configuration check and the CLI probe pass, the handler
  is the probe followed by the steps from the lookup on.
\<close>

lemma inject_credential_pipeline:
  assumes "userId \<noteq> []" and "provider \<noteq> []"
      and "truthy (SUPABASE_URL w)" and "truthy (SUPABASE_SERVICE_KEY w)"
      and "exec_resolves (version_probe w)"
  shows "inject_credential w \<lparr>body_user_id = Some userId, body_provider = Some provider, body_attempt = att\<rparr>
         = (fst (inject_from_lookup w userId provider (case att of None \<Rightarrow> 1 | Some a \<Rightarrow> a)),
            version_check # snd (inject_from_lookup w userId provider (case att of None \<Rightarrow> 1 | Some a \<Rightarrow> a)))"
  using assms
  by (simp add: inject_credential_def truthy_def execAsync_def exec_resolves_def maxBuffer_def
        the_string_def case_prod_beta)

text \<open>When the lookup and the template succeed, the importer runs and the status is written.\<close>

lemma inject_from_lookup_imported:
  assumes "fst (fetchUserCredentials w userId provider) = Inr (Some credData)"
      and "createCredentialTemplate w credData = Inr tpl"
  shows "inject_from_lookup w userId provider a
         = (let cliResult = fst (executeN8NCLIEnhanced w credData (generateCredentialJSON [tpl]));
                upd = updateCredentialStatus w userId provider (success cliResult)
                        (credentialId cliResult) (cli_message cliResult) (details cliResult)
            in (case fst upd of
                  Inl e \<Rightarrow> service_error e
                | Inr u \<Rightarrow>
                   if success cliResult then
                     \<lparr>status = 200,
                      json = \<lparr>rb_success = True,
                              rb_message = ''Credentials injected successfully via Railway n8n CLI'',
                              rb_error_type = None,
                              rb_credential_id = credentialId cliResult,
                              rb_details = details cliResult,
                              rb_attempt = None,
                              rb_troubleshooting = None\<rparr>\<rparr>
                   else
                     \<lparr>status = 500,
                      json = \<lparr>rb_success = False,
                              rb_message = cli_message cliResult,
                              rb_error_type = None,
                              rb_credential_id = None,
                              rb_details = None,
                              rb_attempt = Some a,
                              rb_troubleshooting = troubleshooting cliResult\<rparr>\<rparr>,
                snd (fetchUserCredentials w userId provider)
                  @ snd (executeN8NCLIEnhanced w credData (generateCredentialJSON [tpl]))
                  @ snd upd))"
proof -
  obtain t1 where f: "fetchUserCredentials w userId provider = (Inr (Some credData), t1)"
    using assms(1) by (cases "fetchUserCredentials w userId provider") simp
  obtain r t2 where e: "executeN8NCLIEnhanced w credData (generateCredentialJSON [tpl]) = (r, t2)"
    by (cases "executeN8NCLIEnhanced w credData (generateCredentialJSON [tpl])") simp
  obtain x t3 where u: "updateCredentialStatus w userId provider (success r)
                        (credentialId r) (cli_message r) (details r) = (x, t3)"
    by (cases "updateCredentialStatus w userId provider (success r)
                        (credentialId r) (cli_message r) (details r)") simp
  show ?thesis
    by (cases x) (simp_all add: inject_from_lookup_def f assms(2) e u Let_def)
qed

lemma inject_from_lookup_not_found:
  assumes "fst (fetchUserCredentials w userId provider) = Inr None"
  shows "fst (inject_from_lookup w userId provider a)
           = plain_failure 404 ''User credentials or n8n configuration not found'' None
       \<and> snd (inject_from_lookup w userId provider a) = snd (fetchUserCredentials w userId provider)"
  using assms
  by (cases "fetchUserCredentials w userId provider") (simp add: inject_from_lookup_def)

text \<open>The status reporter: the client exists whenever the lookup got as far as a row.\<close>

lemma fetch_success_client:
  "fst (fetchUserCredentials w u p) = Inr (Some cd) \<Longrightarrow> client_failure w = None"
  by (cases "client_failure w") (simp_all add: fetchUserCredentials_def createClient_def)

lemma updateCredentialStatus_trace:
  "client_failure w = None \<Longrightarrow>
   \<exists>upd. snd (updateCredentialStatus w u p s c m d) = [Update u p upd]"
  by (simp add: updateCredentialStatus_def createClient_def Let_def
        split: query_outcome.split option.split)

lemma updateCredentialStatus_result:
  "client_failure w = None \<Longrightarrow>
   fst (updateCredentialStatus w u p s c m d)
     = (case update_failure (update_query w) of Some e \<Rightarrow> Inl e | None \<Rightarrow> Inr ())"
  by (simp add: updateCredentialStatus_def createClient_def Let_def update_failure_def
        split: query_outcome.split option.split)

text \<open>A successful importer has run the CLI: the trace holds the run that is the import.\<close>

lemma tryImportCommand_success_run:
  assumes "returned_success (fst (tryImportCommand w p cd s)) = Some r"
  shows "exec_resolves (import_run w s)
       \<and> (\<exists>cmd env. snd (tryImportCommand w p cd s)
             = [Exec cmd \<lparr>opt_env = Some env, opt_timeout = 60000, opt_cwd = Some ''/tmp''\<rparr>,
                ReadFile p])"
  using assms
  by (auto simp: tryImportCommand_def returned_success_def execAsync_def
        exec_resolves_def maxBuffer_def
        Let_def
           split: sum.splits prod.splits list.splits if_splits)

lemma returned_success_flag: "returned_success x = Some r \<Longrightarrow> success r"
  by (auto simp: returned_success_def split: sum.splits if_splits)

lemma userFolder_attempt_success_run:
  assumes "returned_success (fst (userFolder_attempt w p cd)) = Some r"
  shows "\<exists>cmd env. Exec cmd \<lparr>opt_env = Some env, opt_timeout = 60000, opt_cwd = Some ''/tmp''\<rparr>
            \<in> set (snd (userFolder_attempt w p cd))"
proof (cases "mkdir_failure w")
  case (Some m)
  with assms show ?thesis
    by (simp add: userFolder_attempt_def returned_success_def)
next
  case None
  with assms have "returned_success (fst (tryImportCommand w p cd ''userFolder'')) = Some r"
    by (simp add: userFolder_attempt_def case_prod_beta)
  from tryImportCommand_success_run [OF this] None show ?thesis
    by (auto simp: userFolder_attempt_def case_prod_beta)
qed

lemma importer_success_ran:
  assumes "success (fst (executeN8NCLIEnhanced w cd doc))"
  shows "\<exists>cmd env. Exec cmd \<lparr>opt_env = Some env, opt_timeout = 60000, opt_cwd = Some ''/tmp''\<rparr>
            \<in> set (snd (executeN8NCLIEnhanced w cd doc))"
proof -
  let ?p = "tempFilePath_of w"
  let ?a1 = "tryImportCommand w ?p cd ''basic''"
  let ?a2 = "userFolder_attempt w ?p cd"
  let ?a3 = "tryImportCommand w ?p cd ''minimal''"
  have w: "write_failure w = None"
    using assms by (cases "write_failure w") (simp_all add: executeN8NCLIEnhanced_def Let_def enhanced_failure_def)
  consider (one) r where "returned_success (fst ?a1) = Some r"
    | (two) r where "returned_success (fst ?a1) = None" "returned_success (fst ?a2) = Some r"
    | (three) r where "returned_success (fst ?a1) = None" "returned_success (fst ?a2) = None"
        "returned_success (fst ?a3) = Some r"
    | (none) "returned_success (fst ?a1) = None" "returned_success (fst ?a2) = None"
        "returned_success (fst ?a3) = None"
    by (cases "returned_success (fst ?a1)"; cases "returned_success (fst ?a2)";
        cases "returned_success (fst ?a3)") auto
  then show ?thesis
  proof cases
    case one
    have "\<exists>cmd env. Exec cmd \<lparr>opt_env = Some env, opt_timeout = 60000, opt_cwd = Some ''/tmp''\<rparr>
            \<in> set (snd ?a1)"
      using tryImportCommand_success_run [OF one] by auto
    then show ?thesis
      using one w by (auto simp: executeN8NCLIEnhanced_def Let_def case_prod_beta)
  next
    case two
    from userFolder_attempt_success_run [OF two(2)] show ?thesis
      using two w by (auto simp: executeN8NCLIEnhanced_def Let_def case_prod_beta)
  next
    case three
    have "\<exists>cmd env. Exec cmd \<lparr>opt_env = Some env, opt_timeout = 60000, opt_cwd = Some ''/tmp''\<rparr>
            \<in> set (snd ?a3)"
      using tryImportCommand_success_run [OF three(3)] by auto
    then show ?thesis
      using three w by (auto simp: executeN8NCLIEnhanced_def Let_def case_prod_beta)
  next
    case none
    with assms w show ?thesis
      by (simp add: executeN8NCLIEnhanced_def Let_def case_prod_beta enhanced_failure_def)
  qed
qed

text \<open>The importer has no exceptional result: it returns a success object or the failure object.\<close>

lemma importer_result_shape:
  "success (fst (executeN8NCLIEnhanced w cd doc))
   \<or> (\<exists>e. fst (executeN8NCLIEnhanced w cd doc) = enhanced_failure e)"
proof -
  let ?p = "tempFilePath_of w"
  have s: "success r" if "returned_success x = Some r" for x r
    using that by (rule returned_success_flag)
  show ?thesis
    by (cases "write_failure w";
        cases "returned_success (fst (tryImportCommand w ?p cd ''basic''))";
        cases "returned_success (fst (userFolder_attempt w ?p cd))";
        cases "returned_success (fst (tryImportCommand w ?p cd ''minimal''))")
       (auto simp: executeN8NCLIEnhanced_def Let_def case_prod_beta dest: s)
qed

section \<open>The concrete world, step by step\<close>

lemma sample_config:
  "truthy (SUPABASE_URL sample_world) \<and> truthy (SUPABASE_SERVICE_KEY sample_world)
   \<and> exec_resolves (version_probe sample_world) \<and> client_failure sample_world = None"
  by (simp add: sample_world_def SUPABASE_URL_def SUPABASE_SERVICE_KEY_def
        exec_resolves_def maxBuffer_def
        truthy_def)

lemma sample_fetch:
  "fetchUserCredentials sample_world ''u1'' ''google''
     = (Inr (Some sample_cred), [SelectSocial ''u1'' ''google'', SelectUser ''u1''])"
  by (simp add: fetchUserCredentials_def createClient_def sample_world_def sample_social_def
        sample_user_def sample_cred_def js_or_def truthy_def)

lemma toUpperCase_g: "toUpperCase CHR ''g'' = CHR ''G''"
  by code_simp

lemma toUpperCase_c: "toUpperCase CHR ''c'' = CHR ''C''"
  by code_simp

lemma sample_template_built:
  "createCredentialTemplate sample_world sample_cred = Inr sample_template"
  by (simp add: createCredentialTemplate_def sample_world_def sample_cred_def sample_template_def
        credentialTypes_def prop_truthy_def capitalize_def toUpperCase_g Let_def)

lemma sample_import:
  "fst (executeN8NCLIEnhanced sample_world sample_cred (generateCredentialJSON [sample_template]))
     = \<lparr>success = True,
        credentialId = Some ''0b5c2a4e-7d1f-4c3a-9e58-6f2d1a0c9b77'',
        cli_message = ''Credentials imported successfully using basic strategy'',
        details = Some \<lparr>det_method = ''railway_cli_basic'',
                        det_output = ''Successfully imported 1 credentials'',
                        det_strategy = Some ''basic''\<rparr>,
        troubleshooting = None\<rparr>"
  by (simp add: executeN8NCLIEnhanced_def tryImportCommand_def strategy_command_def execAsync_def
        exec_resolves_def maxBuffer_def
        returned_success_def has_success_indicator_def generateCredentialJSON_def
        sample_world_def sample_template_def Let_def)

section \<open>One status update per request\<close>

text \<open>
  C2. For every request that passes validation, configuration, the CLI pre-flight, the
  lookup and template construction, the handler's trace is the probe, the lookup, the
  importer's events and then one status update for that (user_id, provider); no other
  status update occurs anywhere in the trace. This holds whatever the importer returns:
  \<open>executeN8NCLIEnhanced\<close> has no exceptional result, it always returns an object.
\<close>

theorem one_status_update:
  assumes "userId \<noteq> []" and "provider \<noteq> []"
      and "truthy (SUPABASE_URL w)" and "truthy (SUPABASE_SERVICE_KEY w)"
      and "exec_resolves (version_probe w)"
      and "fst (fetchUserCredentials w userId provider) = Inr (Some credData)"
      and "createCredentialTemplate w credData = Inr tpl"
  shows "\<exists>upd. snd (inject_credential w \<lparr>body_user_id = Some userId, body_provider = Some provider, body_attempt = att\<rparr>)
                = version_check # snd (fetchUserCredentials w userId provider)
                    @ snd (executeN8NCLIEnhanced w credData (generateCredentialJSON [tpl]))
                    @ [Update userId provider upd]
             \<and> filter is_update (snd (inject_credential w \<lparr>body_user_id = Some userId, body_provider = Some provider, body_attempt = att\<rparr>))
                = [Update userId provider upd]"
proof -
  let ?imp = "executeN8NCLIEnhanced w credData (generateCredentialJSON [tpl])"
  have c: "client_failure w = None"
    using assms(6) by (rule fetch_success_client)
  obtain upd where u:
    "snd (updateCredentialStatus w userId provider (success (fst ?imp))
            (credentialId (fst ?imp)) (cli_message (fst ?imp)) (details (fst ?imp)))
       = [Update userId provider upd]"
    using updateCredentialStatus_trace [OF c] by blast
  obtain mid where m:
    "snd ?imp = WriteFile (tempFilePath_of w) (generateCredentialJSON [tpl]) # mid @ [Unlink (tempFilePath_of w)]"
    "filter is_update mid = []"
    using executeN8NCLIEnhanced_trace [of w credData "generateCredentialJSON [tpl]"] by blast
  have t: "snd (inject_credential w \<lparr>body_user_id = Some userId, body_provider = Some provider, body_attempt = att\<rparr>)
           = version_check # snd (fetchUserCredentials w userId provider) @ snd ?imp @ [Update userId provider upd]"
    by (simp add: inject_credential_pipeline [OF assms(1-5)]
          inject_from_lookup_imported [OF assms(6,7)] Let_def u)
  have "filter is_update (version_check # snd (fetchUserCredentials w userId provider) @ snd ?imp @ [Update userId provider upd])
        = [Update userId provider upd]"
    by (simp add: fetchUserCredentials_no_update m version_check_def)
  with t show ?thesis by auto
qed

theorem one_status_update_witness:
  "\<exists>upd. filter is_update (snd (inject_credential sample_world sample_body))
           = [Update ''u1'' ''google'' upd]"
proof -
  have a: "''u1'' \<noteq> []" "''google'' \<noteq> []" by simp_all
  have f: "fst (fetchUserCredentials sample_world ''u1'' ''google'') = Inr (Some sample_cred)"
    by (simp add: sample_fetch)
  show ?thesis
    using one_status_update [OF a _ _ _ f sample_template_built, of None] sample_config
    by (auto simp: sample_body_def)
qed

section \<open>Requests without user_id or provider\<close>

text \<open>
  C3. A request whose body lacks \<open>user_id\<close> or lacks \<open>provider\<close> is answered 400 with an
  empty trace: no database query, no scratch-file write, no subprocess and no status
  update. Both variants of the handler behave so.
\<close>

theorem missing_field_rejected:
  assumes "body_user_id body = None \<or> body_provider body = None"
  shows "inject_credential w body = (plain_failure 400 ''Missing user_id or provider'' None, [])
       \<and> inject_credential_simple w body
           = (plain_failure 400 ''Missing user_id or provider'' None, [])
       \<and> status (plain_failure 400 ''Missing user_id or provider'' None) = 400"
  using assms by (auto simp: inject_credential_def inject_credential_simple_def truthy_def plain_failure_def)

theorem missing_field_rejected_witness:
  "inject_credential sample_world (sample_body\<lparr>body_provider := None\<rparr>)
     = (plain_failure 400 ''Missing user_id or provider'' None, [])
   \<and> inject_credential_simple sample_world (sample_body\<lparr>body_user_id := None\<rparr>)
     = (plain_failure 400 ''Missing user_id or provider'' None, [])"
  using missing_field_rejected [of "sample_body\<lparr>body_provider := None\<rparr>" sample_world]
        missing_field_rejected [of "sample_body\<lparr>body_user_id := None\<rparr>" sample_world]
  by (simp add: sample_body_def)

section \<open>The provider table\<close>

text \<open>
  For the three supported providers the type tag is the one of the table, and a provider
  name that is neither in the table nor a member of \<^verbatim>\<open>Object.prototype\<close> is refused.
\<close>

lemma supported_provider_type:
  assumes "cd_provider credData \<in> {''google'', ''spotify'', ''github''}"
  shows "\<exists>tpl. createCredentialTemplate w credData = Inr tpl
             \<and> tpl_type tpl = Own (cd_provider credData @ ''OAuth2Api'')"
  using assms
  by (auto simp: createCredentialTemplate_def credentialTypes_def prop_truthy_def Let_def)

lemma unlisted_provider_rejected:
  assumes "cd_provider credData \<notin> {''google'', ''spotify'', ''github''}"
      and "cd_provider credData \<notin> set object_prototype_members"
  shows "createCredentialTemplate w credData
           = Inl (Error (''Unsupported provider: '' @ cd_provider credData))"
  using assms
  by (simp add: createCredentialTemplate_def credentialTypes_def prop_truthy_def Let_def)

text \<open>
  C4. The claim says that template construction fails for every provider string other
  than google, spotify and github. The lookup \<^verbatim>\<open>credentialTypes[credData.provider]\<close>
  also finds what the object literal inherits: for the provider \<open>constructor\<close> it yields
  a function, which is truthy, so no error is thrown and a template is returned whose type
  is that inherited member.
\<close>

theorem constructor_template_built:
  "createCredentialTemplate sample_world (sample_cred\<lparr>cd_provider := ''constructor''\<rparr>)
     = Inr (sample_template\<lparr>tpl_name := ''Constructor OAuth2 - 2024-01-01 12:34'',
                             tpl_type := Inherited ''constructor''\<rparr>)"
  by (simp add: createCredentialTemplate_def sample_world_def sample_cred_def sample_template_def
        credentialTypes_def object_prototype_members_def prop_truthy_def capitalize_def
        toUpperCase_c Let_def)

theorem constructor_template_built_witness:
  "createCredentialTemplate sample_world (sample_cred\<lparr>cd_provider := ''constructor''\<rparr>)
     \<noteq> Inl (Error ''Unsupported provider: constructor'')"
  using constructor_template_built by simp

section \<open>Exhausted strategies\<close>

text \<open>
  C5. Whenever the three strategy blocks all fail (none returns an object with
  \<open>success\<close> set), the importer returns a failure whose troubleshooting payload lists
  exactly basic, userFolder, minimal, in that order, as the strategies tried.
\<close>

theorem exhausted_strategies_payload:
  assumes "returned_success (fst (tryImportCommand w (tempFilePath_of w) credData ''basic'')) = None"
      and "returned_success (fst (userFolder_attempt w (tempFilePath_of w) credData)) = None"
      and "returned_success (fst (tryImportCommand w (tempFilePath_of w) credData ''minimal'')) = None"
  shows "success (fst (executeN8NCLIEnhanced w credData jsonContent)) = False
       \<and> map_option strategies_tried (troubleshooting (fst (executeN8NCLIEnhanced w credData jsonContent)))
           = Some [''basic'', ''userFolder'', ''minimal'']
       \<and> fst (executeN8NCLIEnhanced w credData jsonContent)
           = enhanced_failure (Error (case write_failure w of
                                        None \<Rightarrow> ''All import strategies failed'' | Some m \<Rightarrow> m))"
  using assms
  by (simp add: executeN8NCLIEnhanced_def Let_def case_prod_beta enhanced_failure_def split: option.split)

theorem exhausted_strategies_payload_witness:
  "map_option strategies_tried (troubleshooting (fst (executeN8NCLIEnhanced silent_world sample_cred (generateCredentialJSON [sample_template]))))
     = Some [''basic'', ''userFolder'', ''minimal'']
   \<and> cli_message (fst (executeN8NCLIEnhanced silent_world sample_cred (generateCredentialJSON [sample_template])))
     = ''All import strategies failed''"
proof -
  have a: "returned_success (fst (tryImportCommand silent_world (tempFilePath_of silent_world) sample_cred ''basic'')) = None"
    by (simp add: silent_world_def sample_world_def has_success_indicator_def
        tryImportCommand_def strategy_command_def execAsync_def exec_resolves_def maxBuffer_def
        returned_success_def Let_def)
  have b: "returned_success (fst (userFolder_attempt silent_world (tempFilePath_of silent_world) sample_cred)) = None"
    by (simp add: silent_world_def sample_world_def has_success_indicator_def userFolder_attempt_def
        tryImportCommand_def strategy_command_def execAsync_def exec_resolves_def maxBuffer_def
        returned_success_def Let_def)
  have c: "returned_success (fst (tryImportCommand silent_world (tempFilePath_of silent_world) sample_cred ''minimal'')) = None"
    by (simp add: silent_world_def sample_world_def has_success_indicator_def
        tryImportCommand_def strategy_command_def execAsync_def exec_resolves_def maxBuffer_def
        returned_success_def Let_def)
  have d: "write_failure silent_world = None"
    by (simp add: silent_world_def sample_world_def)
  show ?thesis
    using exhausted_strategies_payload [OF a b c, of "generateCredentialJSON [sample_template]"] d
    by (simp add: enhanced_failure_def)
qed

section \<open>A failed status update after a successful import\<close>

text \<open>
  C6. If the status update fails after the importer has reported success, the request
  fails: the response is the 500 of the outer \<^verbatim>\<open>catch\<close>, with error_type
  \<open>railway_service_error\<close>, although the import command has run; the failed update is
  the last event of the trace, so nothing is done to compensate.
\<close>

theorem failed_status_write_after_import:
  assumes "userId \<noteq> []" and "provider \<noteq> []"
      and "truthy (SUPABASE_URL w)" and "truthy (SUPABASE_SERVICE_KEY w)"
      and "exec_resolves (version_probe w)"
      and "fst (fetchUserCredentials w userId provider) = Inr (Some credData)"
      and "createCredentialTemplate w credData = Inr tpl"
      and "success (fst (executeN8NCLIEnhanced w credData (generateCredentialJSON [tpl])))"
      and "update_failure (update_query w) = Some e"
  shows "fst (inject_credential w \<lparr>body_user_id = Some userId, body_provider = Some provider, body_attempt = att\<rparr>)
           = service_error e
       \<and> status (service_error e) = 500
       \<and> rb_success (json (service_error e)) = False
       \<and> rb_error_type (json (service_error e)) = Some ''railway_service_error''
       \<and> (\<exists>cmd env. Exec cmd \<lparr>opt_env = Some env, opt_timeout = 60000, opt_cwd = Some ''/tmp''\<rparr>
              \<in> set (snd (executeN8NCLIEnhanced w credData (generateCredentialJSON [tpl]))))
       \<and> (\<exists>upd. snd (inject_credential w \<lparr>body_user_id = Some userId, body_provider = Some provider, body_attempt = att\<rparr>)
              = version_check # snd (fetchUserCredentials w userId provider)
                  @ snd (executeN8NCLIEnhanced w credData (generateCredentialJSON [tpl]))
                  @ [Update userId provider upd])"
proof -
  let ?imp = "executeN8NCLIEnhanced w credData (generateCredentialJSON [tpl])"
  let ?body = "\<lparr>body_user_id = Some userId, body_provider = Some provider, body_attempt = att\<rparr>"
  have c: "client_failure w = None"
    using assms(6) by (rule fetch_success_client)
  obtain upd where u:
    "snd (updateCredentialStatus w userId provider (success (fst ?imp))
            (credentialId (fst ?imp)) (cli_message (fst ?imp)) (details (fst ?imp)))
       = [Update userId provider upd]"
    using updateCredentialStatus_trace [OF c] by blast
  have r: "fst (updateCredentialStatus w userId provider (success (fst ?imp))
            (credentialId (fst ?imp)) (cli_message (fst ?imp)) (details (fst ?imp))) = Inl e"
    by (simp add: updateCredentialStatus_result [OF c] assms(9))
  have "inject_credential w ?body
        = (service_error e,
           version_check # snd (fetchUserCredentials w userId provider) @ snd ?imp
             @ [Update userId provider upd])"
    by (simp add: inject_credential_pipeline [OF assms(1-5)]
          inject_from_lookup_imported [OF assms(6,7)] Let_def u r)
  moreover have "status (service_error e) = 500
       \<and> rb_success (json (service_error e)) = False
       \<and> rb_error_type (json (service_error e)) = Some ''railway_service_error''"
    by (simp add: service_error_def plain_failure_def)
  ultimately show ?thesis
    using importer_success_ran [OF assms(8)] by simp
qed

theorem failed_status_write_after_import_witness:
  "fst (inject_credential refusing_world sample_body)
     = service_error (Error ''Database update failed: permission denied'')
   \<and> status (fst (inject_credential refusing_world sample_body)) = 500"
proof -
  have a: "''u1'' \<noteq> []" "''google'' \<noteq> []" by simp_all
  have cfg: "truthy (SUPABASE_URL refusing_world)" "truthy (SUPABASE_SERVICE_KEY refusing_world)"
    "exec_resolves (version_probe refusing_world)"
    by (simp_all add: refusing_world_def sample_world_def SUPABASE_URL_def SUPABASE_SERVICE_KEY_def
          exec_resolves_def maxBuffer_def
          truthy_def)
  have f: "fst (fetchUserCredentials refusing_world ''u1'' ''google'') = Inr (Some sample_cred)"
    by (simp add: fetchUserCredentials_def createClient_def refusing_world_def sample_world_def
          sample_social_def sample_user_def sample_cred_def js_or_def truthy_def)
  have t: "createCredentialTemplate refusing_world sample_cred = Inr sample_template"
    by (simp add: createCredentialTemplate_def refusing_world_def sample_world_def sample_cred_def
          sample_template_def credentialTypes_def prop_truthy_def capitalize_def toUpperCase_g Let_def)
  have i: "success (fst (executeN8NCLIEnhanced refusing_world sample_cred (generateCredentialJSON [sample_template])))"
    by (simp add: executeN8NCLIEnhanced_def tryImportCommand_def strategy_command_def execAsync_def
          exec_resolves_def maxBuffer_def
        returned_success_def has_success_indicator_def generateCredentialJSON_def
        sample_world_def refusing_world_def sample_template_def Let_def)
  have u: "update_failure (update_query refusing_world)
           = Some (Error ''Database update failed: permission denied'')"
    by (simp add: refusing_world_def update_failure_def)
  show ?thesis
    using failed_status_write_after_import [OF a cfg f t i u, of None]
    by (simp add: sample_body_def)
qed

section \<open>Cleanup of the scratch file\<close>

text \<open>
  C7. On every path of the enhanced importer the trace starts with the write of the
  scratch file and ends with the one attempt to delete it, after a success as after the
  last failure; and how the deletion turns out changes neither the result nor the trace.
\<close>

theorem scratch_file_cleanup:
  "(\<exists>mid. snd (executeN8NCLIEnhanced w credData jsonContent)
            = WriteFile (tempFilePath_of w) jsonContent # mid @ [Unlink (tempFilePath_of w)]
          \<and> filter is_unlink mid = [])
   \<and> executeN8NCLIEnhanced (w\<lparr>unlink_failure := f\<rparr>) credData jsonContent
       = executeN8NCLIEnhanced w credData jsonContent"
proof -
  have t: "tryImportCommand (w\<lparr>unlink_failure := f\<rparr>) p credData s = tryImportCommand w p credData s" for p s
    by (simp add: tryImportCommand_def strategy_command_def Let_def
          split: sum.split prod.split list.split)
  have u: "userFolder_attempt (w\<lparr>unlink_failure := f\<rparr>) p credData = userFolder_attempt w p credData" for p
    by (simp add: userFolder_attempt_def t split: option.split)
  have "executeN8NCLIEnhanced (w\<lparr>unlink_failure := f\<rparr>) credData jsonContent
       = executeN8NCLIEnhanced w credData jsonContent"
    by (simp add: executeN8NCLIEnhanced_def t u tempFilePath_of_def Let_def case_prod_beta
          split: option.split)
  then show ?thesis
    using executeN8NCLIEnhanced_trace [of w credData jsonContent] by blast
qed

theorem scratch_file_cleanup_witness:
  "executeN8NCLIEnhanced (sample_world\<lparr>unlink_failure := Some ''EACCES: permission denied''\<rparr>)
       sample_cred (generateCredentialJSON [sample_template])
     = executeN8NCLIEnhanced sample_world sample_cred (generateCredentialJSON [sample_template])
   \<and> (\<exists>mid. snd (executeN8NCLIEnhanced silent_world sample_cred (generateCredentialJSON [sample_template]))
              = WriteFile (tempFilePath_of silent_world) (generateCredentialJSON [sample_template])
                  # mid @ [Unlink (tempFilePath_of silent_world)]
            \<and> filter is_unlink mid = [])"
  using scratch_file_cleanup [of sample_world sample_cred "generateCredentialJSON [sample_template]"
          "Some ''EACCES: permission denied''"]
        scratch_file_cleanup [of silent_world sample_cred "generateCredentialJSON [sample_template]"]
  by blast

section \<open>Lookups that find nothing\<close>

lemma fetch_null_on_failed_lookup:
  assumes "client_failure w = None"
      and "lookup_failed (social_query w userId provider) \<or> lookup_failed (user_query w userId)"
  shows "fst (fetchUserCredentials w userId provider) = Inr None"
  using assms
  by (auto simp: fetchUserCredentials_def createClient_def lookup_failed_def
           split: query_outcome.splits option.splits)

text \<open>
  C8. For every (user_id, provider), the fetcher returns the same \<^verbatim>\<open>null\<close> whether a
  lookup resolved with no row, resolved with an error, or rejected; and the handler
  answers each of these with the same 404 and the same message.
\<close>

theorem failed_lookups_alike:
  assumes "client_failure w = None"
      and "lookup_failed (social_query w userId provider) \<or> lookup_failed (user_query w userId)"
      and "userId \<noteq> []" and "provider \<noteq> []"
      and "truthy (SUPABASE_URL w)" and "truthy (SUPABASE_SERVICE_KEY w)"
      and "exec_resolves (version_probe w)"
  shows "fst (fetchUserCredentials w userId provider) = Inr None
       \<and> fst (inject_credential w \<lparr>body_user_id = Some userId, body_provider = Some provider, body_attempt = att\<rparr>)
           = plain_failure 404 ''User credentials or n8n configuration not found'' None
       \<and> status (plain_failure 404 ''User credentials or n8n configuration not found'' None) = 404
       \<and> rb_message (json (plain_failure 404 ''User credentials or n8n configuration not found'' None))
           = ''User credentials or n8n configuration not found''"
proof -
  have n: "fst (fetchUserCredentials w userId provider) = Inr None"
    using assms(1,2) by (rule fetch_null_on_failed_lookup)
  show ?thesis
    by (simp add: n inject_credential_pipeline [OF assms(3-7)] inject_from_lookup_not_found [OF n]
          plain_failure_def)
qed

theorem failed_lookups_alike_witness:
  "fst (inject_credential empty_world sample_body)
     = plain_failure 404 ''User credentials or n8n configuration not found'' None
   \<and> fst (inject_credential (sample_world\<lparr>social_query := (\<lambda>u p. Rejected (Error ''fetch failed''))\<rparr>) sample_body)
     = plain_failure 404 ''User credentials or n8n configuration not found'' None"
proof -
  let ?w2 = "sample_world\<lparr>social_query := (\<lambda>u p. Rejected (Error ''fetch failed''))\<rparr>"
  have a: "''u1'' \<noteq> []" "''google'' \<noteq> []" by simp_all
  have c1: "client_failure empty_world = None"
    "lookup_failed (social_query empty_world ''u1'' ''google'') \<or> lookup_failed (user_query empty_world ''u1'')"
    by (simp_all add: empty_world_def sample_world_def lookup_failed_def)
  have g1: "truthy (SUPABASE_URL empty_world)" "truthy (SUPABASE_SERVICE_KEY empty_world)"
    "exec_resolves (version_probe empty_world)"
    by (simp_all add: empty_world_def sample_world_def SUPABASE_URL_def SUPABASE_SERVICE_KEY_def
          exec_resolves_def maxBuffer_def
          truthy_def)
  have c2: "client_failure ?w2 = None"
    "lookup_failed (social_query ?w2 ''u1'' ''google'') \<or> lookup_failed (user_query ?w2 ''u1'')"
    by (simp_all add: sample_world_def lookup_failed_def)
  have g2: "truthy (SUPABASE_URL ?w2)" "truthy (SUPABASE_SERVICE_KEY ?w2)"
    "exec_resolves (version_probe ?w2)"
    by (simp_all add: sample_world_def SUPABASE_URL_def SUPABASE_SERVICE_KEY_def
          exec_resolves_def maxBuffer_def
          truthy_def)
  show ?thesis
    using failed_lookups_alike [OF c1 a g1, of None] failed_lookups_alike [OF c2 a g2, of None]
    by (simp add: sample_body_def)
qed

section \<open>Empty strings as missing fields\<close>

text \<open>
  C9. A request whose \<open>user_id\<close> or \<open>provider\<close> is present but the empty string is
  answered 400 with the message "Missing user_id or provider", as an absent field is: the
  checks are falsiness checks. Both variants of the handler behave so.
\<close>

theorem empty_field_rejected:
  assumes "body_user_id body = Some [] \<or> body_provider body = Some []"
  shows "inject_credential w body = (plain_failure 400 ''Missing user_id or provider'' None, [])
       \<and> inject_credential_simple w body
           = (plain_failure 400 ''Missing user_id or provider'' None, [])
       \<and> status (plain_failure 400 ''Missing user_id or provider'' None) = 400
       \<and> rb_message (json (plain_failure 400 ''Missing user_id or provider'' None))
           = ''Missing user_id or provider''"
  using assms by (auto simp: inject_credential_def inject_credential_simple_def truthy_def plain_failure_def)

theorem empty_field_rejected_witness:
  "inject_credential sample_world (sample_body\<lparr>body_provider := Some []\<rparr>)
     = (plain_failure 400 ''Missing user_id or provider'' None, [])
   \<and> inject_credential_simple sample_world (sample_body\<lparr>body_user_id := Some []\<rparr>)
     = (plain_failure 400 ''Missing user_id or provider'' None, [])"
  using empty_field_rejected [of "sample_body\<lparr>body_provider := Some []\<rparr>" sample_world]
        empty_field_rejected [of "sample_body\<lparr>body_user_id := Some []\<rparr>" sample_world]
  by (simp add: sample_body_def)

section \<open>Unsupported providers at the handler\<close>

text \<open>
  When template construction throws, the handler answers with the 500 of its outer
  \<^verbatim>\<open>catch\<close> and the trace holds the probe and the lookup only. This is what happens
  for a stored provider that is neither in the table nor a member of
  \<^verbatim>\<open>Object.prototype\<close>.
\<close>

lemma fetch_keeps_provider:
  "fst (fetchUserCredentials w userId provider) = Inr (Some credData) \<Longrightarrow>
   cd_provider credData = provider"
  by (auto simp: fetchUserCredentials_def split: sum.splits query_outcome.splits option.splits)

lemma unlisted_provider_request:
  assumes "userId \<noteq> []" and "provider \<noteq> []"
      and "truthy (SUPABASE_URL w)" and "truthy (SUPABASE_SERVICE_KEY w)"
      and "exec_resolves (version_probe w)"
      and "fst (fetchUserCredentials w userId provider) = Inr (Some credData)"
      and "provider \<notin> {''google'', ''spotify'', ''github''}"
      and "provider \<notin> set object_prototype_members"
  shows "inject_credential w \<lparr>body_user_id = Some userId, body_provider = Some provider, body_attempt = att\<rparr>
         = (service_error (Error (''Unsupported provider: '' @ provider)),
            version_check # snd (fetchUserCredentials w userId provider))"
proof -
  have p: "cd_provider credData = provider"
    using assms(6) by (rule fetch_keeps_provider)
  have t: "createCredentialTemplate w credData = Inl (Error (''Unsupported provider: '' @ provider))"
    using unlisted_provider_rejected [of credData w] assms(7,8) p by simp
  obtain t1 where f: "fetchUserCredentials w userId provider = (Inr (Some credData), t1)"
    using assms(6) by (cases "fetchUserCredentials w userId provider") simp
  show ?thesis
    by (simp add: inject_credential_pipeline [OF assms(1-5)] inject_from_lookup_def f t)
qed

text \<open>
  C10. The claim says that for every unsupported provider whose lookup succeeds the
  handler answers 500 with error_type \<open>railway_service_error\<close> and attempts no
  scratch-file write, no subprocess and no status update. For a row stored under the
  provider \<open>constructor\<close> template construction does not throw (see C4): the scratch file
  is written, the three import commands run, the status is updated, and the 500 that
  follows the failed import carries no error_type.
\<close>

theorem constructor_request_outcome:
  "status (fst (inject_credential constructor_world constructor_body)) = 500
   \<and> rb_error_type (json (fst (inject_credential constructor_world constructor_body))) = None
   \<and> rb_message (json (fst (inject_credential constructor_world constructor_body)))
       = ''All import strategies failed''
   \<and> map event_name (snd (inject_credential constructor_world constructor_body))
       = [''exec'', ''select'', ''select'', ''writeFile'', ''exec'', ''mkdir'', ''exec'', ''exec'',
          ''unlink'', ''update'']"
  by (simp add: inject_credential_def inject_from_lookup_def fetchUserCredentials_def
        createClient_def createCredentialTemplate_def credentialTypes_def
        object_prototype_members_def prop_truthy_def capitalize_def toUpperCase_c
        generateCredentialJSON_def executeN8NCLIEnhanced_def tryImportCommand_def
        userFolder_attempt_def strategy_command_def execAsync_def exec_resolves_def maxBuffer_def
        returned_success_def
        enhanced_failure_def updateCredentialStatus_def truthy_def js_or_def the_string_def
        SUPABASE_URL_def SUPABASE_SERVICE_KEY_def version_check_def
        constructor_world_def constructor_body_def sample_world_def sample_social_def
        sample_user_def Let_def)

theorem constructor_request_outcome_witness:
  "''writeFile'' \<in> set (map event_name (snd (inject_credential constructor_world constructor_body)))
   \<and> ''update'' \<in> set (map event_name (snd (inject_credential constructor_world constructor_body)))"
  using constructor_request_outcome by simp

end

